theory Spec2Isabelle
  imports Main
begin

section \<open>Data model of kodiak/pull\_request.py\<close>

text \<open>
  Python \<open>str\<close> values are modelled as \<open>string\<close>; one \<open>char\<close> stands for one
  character of the text wherever offsets are computed. The three pictographs that open the
  status summaries are written as their UTF-8 bytes.
\<close>

datatype MergeabilityResponse =
  OK | NEEDS_UPDATE | NEED_REFRESH | NOT_MERGEABLE | SKIPPABLE_CHECKS | WAIT

text \<open>
  The enumerations of \<open>kodiak.config\<close>. The source compares against the members named
  here; every other value a configuration can hold is the last constructor.
\<close>

datatype BodyText = markdown | plain_text | html | other_body_type string

datatype MergeBodyStyle = pull_request_body | empty_body | other_body_style

datatype MergeTitleStyle = pull_request_title | other_title_style

text \<open>The fields of \<open>kodiak.queries.PullRequest\<close> that the module reads.\<close>

record PullRequest =
  number :: int
  title :: string
  body :: string
  bodyText :: string
  bodyHTML :: string
  isCrossRepository :: bool
  latest_sha :: string
  headRefName :: string
  baseRefName :: string

text \<open>
  \<open>config.merge.message\<close>, \<open>config.merge\<close> and the \<open>V1\<close> document. The fields
  \<open>message.title\<close> and \<open>message.body\<close> are \<open>message_title\<close> and \<open>message_body\<close>
  here; \<open>method_value\<close> is \<open>config.merge.method.value\<close>.
\<close>

record MergeMessage =
  message_title :: MergeTitleStyle
  message_body :: MergeBodyStyle
  include_pr_number :: bool
  body_type :: BodyText
  strip_html_comments :: bool

record Merge =
  method_value :: string
  message :: MergeMessage
  notify_on_conflict :: bool
  delete_branch_on_merge :: bool
  require_automerge_label :: bool
  automerge_label :: string

record V1 =
  merge :: Merge

text \<open>
  \<open>event.config\<close> is either a \<open>V1\<close> document or the error that parsing it gave
  (\<open>isinstance(event.config, V1)\<close> tells them apart).
\<close>

datatype config = IsV1 V1 | NotV1 string

text \<open>
  The event snapshot. Its remaining fields (branch protection, reviews, status contexts, check
  runs, signature validity, merge methods) are only handed to the policy classifier, which is a
  parameter of the model.
\<close>

record EventInfoResponse =
  config :: config
  config_str :: string
  config_file_expression :: string
  pull_request :: PullRequest
  head_exists :: bool

text \<open>
  The exceptions of \<open>kodiak.errors\<close> that \<open>mergeable\<close> raises and
  \<open>mergeability\<close> catches: nine outcomes, each caught by the \<open>except\<close> clause that
  names it.
\<close>

datatype violation =
    MissingSkippableChecks "string list"
  | NotQueueable
  | MergeConflict
  | BranchMerged
  | MergeBlocked string
  | MissingAppID
  | MissingGithubMergeabilityState
  | WaitingForChecks "string list"
  | NeedsBranchUpdate

text \<open>The dictionary built by \<open>get_merge_body\<close>: a key that is absent is \<open>None\<close>.\<close>

record merge_body =
  merge_method :: string
  commit_message :: "string option"
  commit_title :: "string option"

text \<open>
  The exceptions the module lets escape. \<open>ParserError\<close> stands for whatever
  \<open>html_parser.feed\<close> raises (the standard parser raises \<open>AssertionError\<close> on a
  marked section with an unknown keyword).
\<close>

datatype error = UnknownBodyType BodyText | NotImplementedError | ParserError

subsection \<open>Collaborators\<close>

text \<open>
  Every call that leaves the module is recorded, in order, in a list of calls. What a
  collaborator answers may depend on everything that was asked so far, the present call
  included, so each answering function of the client takes that list.
\<close>

datatype call =
    GetDefaultBranchName
  | GetEventInfo string int
  | GetPullRequest int
  | CreateNotification string string "string option"
  | DeleteBranch string
  | MergeBranch string string
  | MergePullRequest int merge_body
  | GetHeaders string
  | SessionDelete string
  | SessionPost string string
  | Mergeable

record client =
  get_default_branch_name :: "call list \<Rightarrow> string option"
  get_event_info :: "call list \<Rightarrow> EventInfoResponse option"
  merge_branch :: "call list \<Rightarrow> int"
  merge_pull_request :: "call list \<Rightarrow> int"
  session_delete :: "call list \<Rightarrow> int"
  session_post :: "call list \<Rightarrow> int"

text \<open>
  Functions and constants that the module imports: the markdown analyser
  \<open>find_html_positions\<close>, the standard HTML parser behind \<open>feed\<close> (given the texts
  fed since the last reset and the text fed now: for each comment callback of this feed the
  parser's \<open>offset\<close> at the callback and the comment's text, and whether the feed ends
  by raising), the policy
  classifier \<open>mergeable\<close> (\<open>None\<close> when it returns, the exception otherwise),
  \<open>get_markdown_for_config\<close>, \<open>messages.FORKS_CANNOT_BE_UPDATED\<close>, \<open>str\<close> of an
  exception, \<open>repr\<close> of a set of checks and \<open>textwrap.dedent\<close>.
\<close>

record ext =
  find_html_positions :: "string \<Rightarrow> (nat \<times> nat) list"
  html_feed :: "string list \<Rightarrow> string \<Rightarrow> (nat \<times> string) list \<times> bool"
  mergeable :: "EventInfoResponse \<Rightarrow> violation option"
  get_markdown_for_config :: "string \<Rightarrow> string \<Rightarrow> string \<Rightarrow> string"
  FORKS_CANNOT_BE_UPDATED :: string
  str_exc :: "violation \<Rightarrow> string"
  repr_checks :: "string list \<Rightarrow> string"
  dedent :: "string \<Rightarrow> string"

text \<open>
  The \<open>PR\<close> object: \<open>self.number\<close> is \<open>PR_number\<close>; the logger is left out.
\<close>

record PR =
  PR_number :: int
  owner :: string
  repo :: string
  installation_id :: string
  event :: "EventInfoResponse option"
  client :: client

text \<open>What \<open>PR.__eq__\<close> can be handed: another \<open>PR\<close> or a value of some other type.\<close>

datatype pyobject = PRObject PR | OtherObject string

section \<open>Text helpers\<close>

definition CR :: char where
  "CR = CHR 0x0D"

definition LF :: char where
  "LF = CHR 0x0A"

text \<open>\<open>s[a:b]\<close> for indices that are not negative.\<close>

definition slice :: "string \<Rightarrow> nat \<Rightarrow> nat \<Rightarrow> string" where
  "slice s a b = take (b - a) (drop a s)"

text \<open>\<open>s.endswith(t)\<close>.\<close>

definition endswith :: "string \<Rightarrow> string \<Rightarrow> bool" where
  "endswith s t = (length t \<le> length s \<and> drop (length s - length t) s = t)"

text \<open>Decimal rendering of an integer, as an f-string does it.\<close>

definition digit_char :: "nat \<Rightarrow> char" where
  "digit_char d = char_of (48 + d)"

function str_nat :: "nat \<Rightarrow> string" where
  "str_nat n = (if n < 10 then [digit_char n] else str_nat (n div 10) @ [digit_char (n mod 10)])"
  by pat_completeness auto
termination
  by (relation "measure id") auto

declare str_nat.simps [simp del]

definition str_int :: "int \<Rightarrow> string" where
  "str_int i = (if i < 0 then ''-'' @ str_nat (nat (- i)) else str_nat (nat i))"

definition police_light :: string where
  "police_light = [CHR 0xF0, CHR 0x9F, CHR 0x9A, CHR 0xA8]"

definition stop_sign :: string where
  "stop_sign = [CHR 0xF0, CHR 0x9F, CHR 0x9B, CHR 0x91]"

definition ferry :: string where
  "ferry = [CHR 0xE2, CHR 0x9B, CHR 0xB4]"

section \<open>The comment stripper\<close>

text \<open>\<open>CommentHTMLParser.handle_comment\<close>: the span appended to \<open>self.comments\<close>.\<close>

definition handle_comment :: "nat \<Rightarrow> string \<Rightarrow> nat \<times> nat" where
  "handle_comment offset tag =
     (let start_token_len = length ''<!--'';
          end_token_len = length ''-->'';
          tag_len = length tag;
          end' = start_token_len + tag_len + end_token_len
      in (offset, end' + offset))"

text \<open>
  The module-global \<open>html_parser\<close>: the list \<open>self.comments\<close> and what the base
  class holds, which is determined by the texts fed since the last reset. \<open>reset\<close> empties
  both; a feed that raises leaves both as they are at the raise.
\<close>

record CommentHTMLParser =
  comments :: "(nat \<times> nat) list"
  fed :: "string list"

definition html_parser_init :: CommentHTMLParser where
  "html_parser_init = \<lparr>comments = [], fed = []\<rparr>"

definition reset :: "CommentHTMLParser \<Rightarrow> CommentHTMLParser" where
  "reset p = p\<lparr>comments := [], fed := []\<rparr>"

definition feed :: "ext \<Rightarrow> CommentHTMLParser \<Rightarrow> string \<Rightarrow> bool \<times> CommentHTMLParser" where
  "feed x p data =
     (let (callbacks, raised) = html_feed x (fed p) data
      in (raised,
          p\<lparr>comments := comments p @ map (\<lambda>(off, tag). handle_comment off tag) callbacks,
            fed := fed p @ [data]\<rparr>))"

text \<open>
  The first loop of \<open>strip_html_comments_from_markdown\<close>. When \<open>feed\<close> raises, the
  function is left at once: \<open>reset\<close> is not reached.
\<close>

fun collect_comments :: "ext \<Rightarrow> string \<Rightarrow> (nat \<times> nat) list \<Rightarrow> (nat \<times> nat) list \<Rightarrow> CommentHTMLParser
    \<Rightarrow> (error + (nat \<times> nat) list) \<times> CommentHTMLParser" where
  "collect_comments x msg [] comment_locations p = (Inr comment_locations, p)"
| "collect_comments x msg ((html_start, html_end) # rest) comment_locations p =
     (let html_text = slice msg html_start html_end;
          (raised, p1) = feed x p html_text
      in if raised then (Inl ParserError, p1)
         else collect_comments x msg rest
                (comment_locations @
                 map (\<lambda>(comment_start, comment_end). (html_start + comment_start, html_start + comment_end))
                     (comments p1))
                (reset p1))"

text \<open>The second loop: the spans are cut out one after the other.\<close>

fun cut_comments :: "string \<Rightarrow> (nat \<times> nat) list \<Rightarrow> string" where
  "cut_comments new_message [] = new_message"
| "cut_comments new_message ((comment_start, comment_end) # rest) =
     cut_comments (take comment_start new_message @ drop comment_end new_message) rest"

definition normalize :: "string \<Rightarrow> string" where
  "normalize raw_message = filter (\<lambda>c. c \<noteq> CR) raw_message"

definition strip_html_comments_from_markdown :: "ext \<Rightarrow> CommentHTMLParser \<Rightarrow> string
    \<Rightarrow> (error + string) \<times> CommentHTMLParser" where
  "strip_html_comments_from_markdown x p raw_message =
     (let msg = normalize raw_message;
          html_node_positions = find_html_positions x msg
      in case collect_comments x msg html_node_positions [] p of
           (Inl e, p1) \<Rightarrow> (Inl e, p1)
         | (Inr comment_locations, p1) \<Rightarrow> (Inr (cut_comments msg (rev comment_locations)), p1))"

text \<open>
  What the analyser and the parser say about a text, its line endings normalized: that the
  parser, started afresh on each HTML node, reports no comment in it, and that it raises on
  none of them.
\<close>

definition no_html_comments :: "ext \<Rightarrow> string \<Rightarrow> bool" where
  "no_html_comments x raw_message =
     (let msg = normalize raw_message
      in list_all (\<lambda>(html_start, html_end). fst (html_feed x [] (slice msg html_start html_end)) = [])
           (find_html_positions x msg))"

definition parser_completes :: "ext \<Rightarrow> string \<Rightarrow> bool" where
  "parser_completes x raw_message =
     (let msg = normalize raw_message
      in list_all (\<lambda>(html_start, html_end). \<not> snd (html_feed x [] (slice msg html_start html_end)))
           (find_html_positions x msg))"

section \<open>The body resolver and the merge body\<close>

definition get_body_content :: "ext \<Rightarrow> CommentHTMLParser \<Rightarrow> BodyText \<Rightarrow> bool \<Rightarrow> PullRequest
    \<Rightarrow> (error + string) \<times> CommentHTMLParser" where
  "get_body_content x p bt strip pr =
     (if bt = markdown then
        (if strip then strip_html_comments_from_markdown x p (body pr) else (Inr (body pr), p))
      else if bt = plain_text then (Inr (bodyText pr), p)
      else if bt = html then (Inr (bodyHTML pr), p)
      else (Inl (UnknownBodyType bt), p))"

text \<open>
  \<open>merge_body.get("commit_title")\<close> is tested for truth: a key that is absent and a title
  that is the empty string both fail the test.
\<close>

definition truthy_title :: "string option \<Rightarrow> bool" where
  "truthy_title t = (case t of None \<Rightarrow> False | Some s \<Rightarrow> s \<noteq> [])"

definition pr_number_suffix :: "int \<Rightarrow> string" where
  "pr_number_suffix n = '' (#'' @ str_int n @ '')''"

definition get_merge_body :: "ext \<Rightarrow> CommentHTMLParser \<Rightarrow> V1 \<Rightarrow> PullRequest
    \<Rightarrow> (error + merge_body) \<times> CommentHTMLParser" where
  "get_merge_body x p cfg pr =
     (let mb0 = \<lparr>merge_method = method_value (merge cfg), commit_message = None, commit_title = None\<rparr>;
          (r1, p1) = (if message_body (message (merge cfg)) = pull_request_body then
                        (case get_body_content x p (body_type (message (merge cfg)))
                                (strip_html_comments (message (merge cfg))) pr of
                           (Inl e, p') \<Rightarrow> (Inl e, p')
                         | (Inr b, p') \<Rightarrow> (Inr (mb0\<lparr>commit_message := Some b\<rparr>), p'))
                      else (Inr mb0, p))
      in case r1 of
           Inl e \<Rightarrow> (Inl e, p1)
         | Inr mb1 \<Rightarrow>
             (let mb2 = (if message_body (message (merge cfg)) = empty_body
                         then mb1\<lparr>commit_message := Some []\<rparr> else mb1);
                  mb3 = (if message_title (message (merge cfg)) = pull_request_title
                         then mb2\<lparr>commit_title := Some (title pr)\<rparr> else mb2);
                  mb4 = (if include_pr_number (message (merge cfg)) \<and> truthy_title (commit_title mb3)
                         then mb3\<lparr>commit_title := map_option (\<lambda>t. t @ pr_number_suffix (number pr)) (commit_title mb3)\<rparr>
                         else mb3)
              in (Inr mb4, p1)))"

section \<open>The PR object\<close>

definition PR_eq :: "PR \<Rightarrow> pyobject \<Rightarrow> error + bool" where
  "PR_eq self b =
     (case b of
        OtherObject _ \<Rightarrow> Inl NotImplementedError
      | PRObject b' \<Rightarrow>
          Inr (PR_number self = PR_number b' \<and> owner self = owner b'
               \<and> repo self = repo b' \<and> installation_id self = installation_id b'))"

subsection \<open>Fetching the snapshot and posting a status\<close>

definition call_client :: "(call list \<Rightarrow> 'r) \<Rightarrow> call \<Rightarrow> call list \<Rightarrow> 'r \<times> call list" where
  "call_client answer c tr = (answer (tr @ [c]), tr @ [c])"

definition CONFIG_FILE_PATH :: string where
  "CONFIG_FILE_PATH = ''.kodiak.toml''"

definition create_git_revision_expression :: "string \<Rightarrow> string \<Rightarrow> string" where
  "create_git_revision_expression branch file_path = branch @ '':'' @ file_path"

definition get_event :: "PR \<Rightarrow> call list \<Rightarrow> EventInfoResponse option \<times> call list" where
  "get_event self tr =
     (case call_client (get_default_branch_name (client self)) GetDefaultBranchName tr of
        (None, tr1) \<Rightarrow> (None, tr1)
      | (Some default_branch_name, tr1) \<Rightarrow>
          call_client (get_event_info (client self))
            (GetEventInfo (create_git_revision_expression default_branch_name CONFIG_FILE_PATH)
               (PR_number self)) tr1)"

definition set_status :: "PR \<Rightarrow> string \<Rightarrow> string option \<Rightarrow> string option \<Rightarrow> call list \<Rightarrow> PR \<times> call list" where
  "set_status self summary detail markdown_content tr =
     (let msg = (case detail of Some d \<Rightarrow> summary @ '' ('' @ d @ '')'' | None \<Rightarrow> summary);
          (self1, tr1) = (if event self = None
                          then (case get_event self tr of (e, t) \<Rightarrow> (self\<lparr>event := e\<rparr>, t))
                          else (self, tr))
      in case event self1 of
           None \<Rightarrow> (self1, tr1)
         | Some ev \<Rightarrow>
             (self1, tr1 @ [CreateNotification (latest_sha (pull_request ev)) msg markdown_content]))"

subsection \<open>Label deletion, comment creation and the conflict notification\<close>

definition issue_url :: "PR \<Rightarrow> string" where
  "issue_url self =
     ''https://api.github.com/repos/'' @ owner self @ ''/'' @ repo self @ ''/issues/''
       @ str_int (PR_number self)"

definition delete_label :: "PR \<Rightarrow> string \<Rightarrow> call list \<Rightarrow> bool \<times> call list" where
  "delete_label self label tr =
     (let tr1 = tr @ [GetHeaders (installation_id self)];
          (status_code, tr2) = call_client (session_delete (client self))
                                 (SessionDelete (issue_url self @ ''/labels/'' @ label)) tr1
      in (status_code \<noteq> 204, tr2))"

definition create_comment :: "PR \<Rightarrow> string \<Rightarrow> call list \<Rightarrow> bool \<times> call list" where
  "create_comment self body' tr =
     (let tr1 = tr @ [GetHeaders (installation_id self)];
          (status_code, tr2) = call_client (session_post (client self))
                                 (SessionPost (issue_url self @ ''/comments'') body') tr1
      in (status_code \<noteq> 200, tr2))"

definition conflict_comment :: "ext \<Rightarrow> string \<Rightarrow> string" where
  "conflict_comment x label =
     dedent x ([LF] @ ''        This PR currently has a merge conflict. Please resolve this and then re-add the `''
                 @ label @ ''` label.'' @ [LF] @ ''        '')"

definition notify_pr_creator :: "ext \<Rightarrow> PR \<Rightarrow> call list \<Rightarrow> bool \<times> call list" where
  "notify_pr_creator x self tr =
     (case event self of
        None \<Rightarrow> (False, tr)
      | Some ev \<Rightarrow>
          (case config ev of
             NotV1 _ \<Rightarrow> (False, tr)
           | IsV1 cfg \<Rightarrow>
               if \<not> require_automerge_label (merge cfg) then (False, tr)
               else (let label = automerge_label (merge cfg);
                         (deleted, tr1) = delete_label self label tr
                     in if \<not> deleted then (False, tr1)
                        else create_comment self (conflict_comment x label) tr1)))"

subsection \<open>The mergeability evaluator\<close>

text \<open>
  The handlers of the \<open>except\<close> clauses, in the order of the source. They run on the
  object as it is after the snapshot was stored in \<open>self.event\<close>; \<open>ev\<close> and \<open>cfg\<close> are
  that snapshot and its configuration, read before the handler's first call. The snapshot
  that is returned is read from \<open>self.event\<close> at the \<open>return\<close>.
\<close>

definition cannot_merge :: "ext \<Rightarrow> PR \<Rightarrow> EventInfoResponse \<Rightarrow> V1 \<Rightarrow> violation \<Rightarrow> call list
    \<Rightarrow> (MergeabilityResponse \<times> EventInfoResponse option) \<times> PR \<times> call list" where
  "cannot_merge x self ev cfg e tr =
     (let tr1 = (if e = MergeConflict \<and> notify_on_conflict (merge cfg)
                 then snd (notify_pr_creator x self tr) else tr);
          tr2 = (if e = BranchMerged \<and> delete_branch_on_merge (merge cfg)
                 then tr1 @ [DeleteBranch (headRefName (pull_request ev))] else tr1);
          (self2, tr3) = set_status self (stop_sign @ '' cannot merge'') (Some (str_exc x e)) None tr2
      in ((NOT_MERGEABLE, event self2), self2, tr3))"

fun on_violation :: "ext \<Rightarrow> PR \<Rightarrow> EventInfoResponse \<Rightarrow> V1 \<Rightarrow> bool \<Rightarrow> violation \<Rightarrow> call list
    \<Rightarrow> (MergeabilityResponse \<times> EventInfoResponse option) \<times> PR \<times> call list" where
  "on_violation x self ev cfg merging (MissingSkippableChecks checks) tr =
     (let (self2, tr2) = set_status self (stop_sign @ '' not waiting for dont_wait_on_status_checks'')
                           (Some (repr_checks x checks)) None tr
      in ((SKIPPABLE_CHECKS, event self2), self2, tr2))"
| "on_violation x self ev cfg merging NotQueueable tr = cannot_merge x self ev cfg NotQueueable tr"
| "on_violation x self ev cfg merging MergeConflict tr = cannot_merge x self ev cfg MergeConflict tr"
| "on_violation x self ev cfg merging BranchMerged tr = cannot_merge x self ev cfg BranchMerged tr"
| "on_violation x self ev cfg merging (MergeBlocked reason) tr =
     (let (self2, tr2) = set_status self (stop_sign @ '' '' @ str_exc x (MergeBlocked reason)) None None tr
      in ((NOT_MERGEABLE, event self2), self2, tr2))"
| "on_violation x self ev cfg merging MissingAppID tr = ((NOT_MERGEABLE, event self), self, tr)"
| "on_violation x self ev cfg merging MissingGithubMergeabilityState tr =
     ((NEED_REFRESH, event self), self, tr)"
| "on_violation x self ev cfg merging (WaitingForChecks checks) tr =
     (let (self2, tr2) = (if merging
                          then set_status self (ferry @ '' attempting to merge PR'')
                                 (Some (''waiting for checks: '' @ repr_checks x checks)) None tr
                          else (self, tr))
      in ((WAIT, event self2), self2, tr2))"
| "on_violation x self ev cfg merging NeedsBranchUpdate tr =
     (if isCrossRepository (pull_request ev) then
        (let (self2, tr2) = set_status self
                              (police_light @ '' forks cannot be updated via the github api. Click \"Details\" for more info'')
                              None (Some (FORKS_CANNOT_BE_UPDATED x)) tr
         in ((NOT_MERGEABLE, event self2), self2, tr2))
      else
        (let (self2, tr2) = (if merging
                             then set_status self (ferry @ '' attempting to merge PR'')
                                    (Some ''updating branch'') None tr
                             else (self, tr))
         in ((NEEDS_UPDATE, event self2), self2, tr2)))"

definition mergeability :: "ext \<Rightarrow> PR \<Rightarrow> bool \<Rightarrow> call list
    \<Rightarrow> (MergeabilityResponse \<times> EventInfoResponse option) \<times> PR \<times> call list" where
  "mergeability x self merging tr =
     (let (fetched, tr1) = get_event self tr;
          self1 = self\<lparr>event := fetched\<rparr>
      in case event self1 of
           None \<Rightarrow> ((NOT_MERGEABLE, None), self1, tr1)
         | Some ev \<Rightarrow>
             if \<not> isCrossRepository (pull_request ev) \<and> \<not> head_exists ev
             then ((NOT_MERGEABLE, None), self1, tr1)
             else (case config ev of
                     NotV1 err \<Rightarrow>
                       (let (self2, tr2) =
                              set_status self1 (police_light @ '' Invalid configuration'')
                                (Some ''Click \"Details\" for more info.'')
                                (Some (get_markdown_for_config x err (config_str ev)
                                         (config_file_expression ev))) tr1
                        in ((NOT_MERGEABLE, None), self2, tr2))
                   | IsV1 cfg \<Rightarrow>
                       (let tr2 = tr1 @ [Mergeable]
                        in case mergeable x ev of
                             None \<Rightarrow> ((OK, event self1), self1, tr2)
                           | Some e \<Rightarrow> on_violation x self1 ev cfg merging e tr2)))"

subsection \<open>Branch update and merge\<close>

text \<open>
  A response is its status code; \<open>res.json()\<close> only feeds the log line of the failure
  branch.
\<close>

definition update :: "PR \<Rightarrow> call list \<Rightarrow> bool \<times> call list" where
  "update self tr =
     (case get_event self tr of
        (None, tr1) \<Rightarrow> (False, tr1)
      | (Some ev, tr1) \<Rightarrow>
          (let (status_code, tr2) =
                 call_client (merge_branch (client self))
                   (MergeBranch (baseRefName (pull_request ev)) (headRefName (pull_request ev))) tr1
           in if status_code > 300 then (False, tr2) else (True, tr2)))"

definition trigger_mergeability_check :: "PR \<Rightarrow> call list \<Rightarrow> call list" where
  "trigger_mergeability_check self tr = tr @ [GetPullRequest (PR_number self)]"

definition PR_merge :: "ext \<Rightarrow> PR \<Rightarrow> EventInfoResponse \<Rightarrow> CommentHTMLParser \<Rightarrow> call list
    \<Rightarrow> (error + bool) \<times> CommentHTMLParser \<times> call list" where
  "PR_merge x self ev p tr =
     (case config ev of
        NotV1 _ \<Rightarrow> (Inr False, p, tr)
      | IsV1 cfg \<Rightarrow>
          (case get_merge_body x p cfg (pull_request ev) of
             (Inl e, p1) \<Rightarrow> (Inl e, p1, tr)
           | (Inr mb, p1) \<Rightarrow>
               (let (status_code, tr1) =
                      call_client (merge_pull_request (client self))
                        (MergePullRequest (PR_number self) mb) tr
                in if status_code > 300 then (Inr False, p1, tr1) else (Inr True, p1, tr1))))"

section \<open>The response table of the specification\<close>

text \<open>
  The table of section 4.4, written from the specification: the response for each outcome of
  the classifier (\<open>None\<close> is success) and the cross-repository flag of the pull request.
\<close>

fun table_response :: "violation option \<Rightarrow> bool \<Rightarrow> MergeabilityResponse" where
  "table_response None cross = OK"
| "table_response (Some (MissingSkippableChecks checks)) cross = SKIPPABLE_CHECKS"
| "table_response (Some NotQueueable) cross = NOT_MERGEABLE"
| "table_response (Some MergeConflict) cross = NOT_MERGEABLE"
| "table_response (Some BranchMerged) cross = NOT_MERGEABLE"
| "table_response (Some (MergeBlocked reason)) cross = NOT_MERGEABLE"
| "table_response (Some MissingAppID) cross = NOT_MERGEABLE"
| "table_response (Some MissingGithubMergeabilityState) cross = NEED_REFRESH"
| "table_response (Some (WaitingForChecks checks)) cross = WAIT"
| "table_response (Some NeedsBranchUpdate) cross = (if cross then NOT_MERGEABLE else NEEDS_UPDATE)"

text \<open>The number of status notifications in a list of calls.\<close>

fun is_status :: "call \<Rightarrow> bool" where
  "is_status (CreateNotification sha msg summary) = True"
| "is_status c = False"

definition status_posts :: "call list \<Rightarrow> nat" where
  "status_posts tr = length (filter is_status tr)"

section \<open>Sample values\<close>

text \<open>Concrete collaborators, configurations and snapshots on which the model is run.\<close>

text \<open>
  Four bodies: an HTML block with a comment on its second line, an HTML block with a marked
  section, an HTML block without a comment, and a line with an inline comment.
\<close>

definition multiline_block :: string where
  "multiline_block = ''<div>'' @ [LF] @ ''<!-- c -->'' @ [LF] @ ''</div>''"

definition marked_block :: string where
  "marked_block = ''<div><![foo[</div>''"

definition plain_block :: string where
  "plain_block = ''<p>hi</p>''"

definition inline_comment_body :: string where
  "inline_comment_body = ''Hello <!-- secret --> world''"

text \<open>
  The answers of the markdown analyser and of the standard parser on these bodies: each block
  is one HTML node, the inline comment is one HTML node; the parser reports the comment of
  \<open>multiline_block\<close> at offset 0, its column in the line, raises on the marked section and,
  not having been reset, on whatever is fed after it. Texts not named here have no markup.
\<close>

definition sample_positions :: "string \<Rightarrow> (nat \<times> nat) list" where
  "sample_positions s =
     (if s = multiline_block \<or> s = marked_block \<or> s = plain_block then [(0, length s)]
      else if s = inline_comment_body then [(6, 21)]
      else [])"

definition sample_feed :: "string list \<Rightarrow> string \<Rightarrow> (nat \<times> string) list \<times> bool" where
  "sample_feed before data =
     (if marked_block \<in> set (before @ [data]) then ([], True)
      else if before = [] \<and> data = multiline_block then ([(0, '' c '')], False)
      else if before = [] \<and> data = ''<!-- secret -->'' then ([(0, '' secret '')], False)
      else ([], False))"

definition sample_ext :: ext where
  "sample_ext =
     \<lparr>find_html_positions = sample_positions, html_feed = sample_feed, mergeable = (\<lambda>ev. None),
      get_markdown_for_config = (\<lambda>c s e. s), FORKS_CANNOT_BE_UPDATED = ''forks'',
      str_exc = (\<lambda>e. ''violation''), repr_checks = concat, dedent = (\<lambda>s. s)\<rparr>"

definition sample_pull_request :: PullRequest where
  "sample_pull_request =
     \<lparr>number = 7, title = ''Fix the parser'', body = ''Hello'', bodyText = ''Hello'',
      bodyHTML = ''<p>Hello</p>'', isCrossRepository = False, latest_sha = ''abc123'',
      headRefName = ''feature'', baseRefName = ''main''\<rparr>"

definition sample_message :: MergeMessage where
  "sample_message =
     \<lparr>message_title = pull_request_title, message_body = empty_body, include_pr_number = True,
      body_type = markdown, strip_html_comments = False\<rparr>"

definition sample_config :: V1 where
  "sample_config =
     \<lparr>merge = \<lparr>method_value = ''squash'', message = sample_message, notify_on_conflict = True,
               delete_branch_on_merge = False, require_automerge_label = True,
               automerge_label = ''automerge''\<rparr>\<rparr>"

definition sample_event :: EventInfoResponse where
  "sample_event =
     \<lparr>config = IsV1 sample_config, config_str = [], config_file_expression = ''main:.kodiak.toml'',
      pull_request = sample_pull_request, head_exists = True\<rparr>"

text \<open>A pull request from a fork, whose head the snapshot reports as missing.\<close>

definition fork_event :: EventInfoResponse where
  "fork_event =
     sample_event\<lparr>pull_request := sample_pull_request\<lparr>isCrossRepository := True\<rparr>,
                  head_exists := False\<rparr>"

text \<open>The same fork with a configuration that does not parse.\<close>

definition broken_fork_event :: EventInfoResponse where
  "broken_fork_event = fork_event\<lparr>config := NotV1 ''bad'', config_str := ''[merge''\<rparr>"

text \<open>A pull request of the same repository whose head was deleted.\<close>

definition deleted_event :: EventInfoResponse where
  "deleted_event = sample_event\<lparr>head_exists := False\<rparr>"

text \<open>A pull request with an empty title.\<close>

definition untitled_pull_request :: PullRequest where
  "untitled_pull_request = sample_pull_request\<lparr>title := []\<rparr>"

text \<open>
  A client that resolves the default branch to \<open>main\<close>, serves the given snapshot, answers a
  label deletion with the first status code and every other request with the second.
\<close>

definition sample_client :: "EventInfoResponse \<Rightarrow> int \<Rightarrow> int \<Rightarrow> client" where
  "sample_client ev deleted status =
     \<lparr>get_default_branch_name = (\<lambda>tr. Some ''main''), get_event_info = (\<lambda>tr. Some ev),
      merge_branch = (\<lambda>tr. status), merge_pull_request = (\<lambda>tr. status),
      session_delete = (\<lambda>tr. deleted), session_post = (\<lambda>tr. status)\<rparr>"

definition sample_PR :: "client \<Rightarrow> EventInfoResponse option \<Rightarrow> PR" where
  "sample_PR c e =
     \<lparr>PR_number = 7, owner = ''octo'', repo = ''demo'', installation_id = ''99'',
      event = e, client = c\<rparr>"

text \<open>The calls that fetching the sample snapshot makes.\<close>

definition sample_fetch :: "call list" where
  "sample_fetch = [GetDefaultBranchName, GetEventInfo ''main:.kodiak.toml'' 7]"

text \<open>A body with a carriage return and no markup.\<close>

definition crlf_body :: string where
  "crlf_body = ''a'' @ [CR, LF] @ ''b''"

text \<open>The calls that a run appended to the list it started from.\<close>

definition new_calls :: "call list \<Rightarrow> call list \<Rightarrow> call list" where
  "new_calls before after = drop (length before) after"

section \<open>Facts about the collaborator calls\<close>

lemma get_event_sample:
  "get_event (sample_PR (sample_client ev d s) e) [] = (Some ev, sample_fetch)"
  by (simp add: get_event_def call_client_def sample_client_def sample_PR_def sample_fetch_def
      create_git_revision_expression_def CONFIG_FILE_PATH_def)

lemma get_event_trace:
  "\<exists>cs. snd (get_event self tr) = tr @ cs \<and> Mergeable \<notin> set cs \<and> status_posts cs = 0"
  by (auto simp add: get_event_def call_client_def status_posts_def split: option.splits)

text \<open>With a snapshot cached, posting a status fetches nothing and leaves the object alone.\<close>

lemma set_status_event:
  "event self = Some ev \<Longrightarrow>
   set_status self s d m tr =
     (self, tr @ [CreateNotification (latest_sha (pull_request ev))
                    (case d of Some d' \<Rightarrow> s @ '' ('' @ d' @ '')'' | None \<Rightarrow> s) m])"
  by (simp add: set_status_def)

section \<open>The evaluator against the response table\<close>

lemma cannot_merge_result:
  "event self = Some ev \<Longrightarrow>
   fst (cannot_merge x self ev cfg e tr) = (NOT_MERGEABLE, Some ev)"
  by (simp add: cannot_merge_def set_status_event Let_def)

lemma on_violation_result:
  "event self = Some ev \<Longrightarrow>
   fst (on_violation x self ev cfg merging e tr)
     = (table_response (Some e) (isCrossRepository (pull_request ev)), Some ev)"
  by (cases e) (simp_all add: cannot_merge_result set_status_event)

lemma mergeability_unfold:
  assumes "get_event self tr = (Some ev, tr1)"
    and "isCrossRepository (pull_request ev) \<or> head_exists ev"
    and "config ev = IsV1 cfg"
  shows "mergeability x self merging tr =
           (case mergeable x ev of
              None \<Rightarrow> ((OK, Some ev), self\<lparr>event := Some ev\<rparr>, tr1 @ [Mergeable])
            | Some e \<Rightarrow> on_violation x (self\<lparr>event := Some ev\<rparr>) ev cfg merging e (tr1 @ [Mergeable]))"
  using assms by (auto simp add: mergeability_def Let_def split: option.splits)

lemma mergeability_response:
  assumes "get_event self tr = (Some ev, tr1)"
    and "isCrossRepository (pull_request ev) \<or> head_exists ev"
    and "config ev = IsV1 cfg"
  shows "fst (mergeability x self merging tr)
           = (table_response (mergeable x ev) (isCrossRepository (pull_request ev)), Some ev)"
  by (simp add: mergeability_unfold [OF assms] on_violation_result split: option.splits)

text \<open>
  Claim C1. Whenever the snapshot is obtained, the head check passes (the pull request is
  cross-repository or its head exists) and the configuration is a \<open>V1\<close> document,
  \<open>mergeability\<close> returns the response that the table of section 4.4 gives for the
  classifier's outcome, and the second component of the pair is the snapshot fetched at the
  start of the call, never \<open>None\<close>.
\<close>

theorem mergeability_table:
  assumes "get_event self tr = (Some ev, tr1)"
    and "isCrossRepository (pull_request ev) \<or> head_exists ev"
    and "config ev = IsV1 cfg"
  shows "fst (mergeability x self merging tr)
           = (table_response (mergeable x ev) (isCrossRepository (pull_request ev)), Some ev)"
  using assms by (rule mergeability_response)

theorem mergeability_table_witness:
  "get_event (sample_PR (sample_client sample_event 404 201) None) [] = (Some sample_event, sample_fetch)
   \<and> (isCrossRepository (pull_request sample_event) \<or> head_exists sample_event)
   \<and> config sample_event = IsV1 sample_config
   \<and> fst (mergeability (sample_ext\<lparr>mergeable := (\<lambda>ev. Some MergeConflict)\<rparr>)
            (sample_PR (sample_client sample_event 404 201) None) True [])
       = (NOT_MERGEABLE, Some sample_event)"
proof -
  have h1: "get_event (sample_PR (sample_client sample_event 404 201) None) []
              = (Some sample_event, sample_fetch)"
    by (rule get_event_sample)
  have h2: "isCrossRepository (pull_request sample_event) \<or> head_exists sample_event"
    by (simp add: sample_event_def)
  have h3: "config sample_event = IsV1 sample_config"
    by (simp add: sample_event_def)
  show ?thesis
    using h1 h2 h3
      mergeability_table [OF h1 h2 h3, of "sample_ext\<lparr>mergeable := (\<lambda>ev. Some MergeConflict)\<rparr>" True]
    by simp
qed

section \<open>Label deletion, comments and the conflict notification\<close>

lemma str_int_7: "str_int 7 = ''7''"
  by code_simp

lemma pr_number_suffix_7: "pr_number_suffix 7 = '' (#7)''"
  by (simp add: pr_number_suffix_def str_int_7)

lemma delete_label_flag:
  "delete_label self label tr =
     (session_delete (client self)
        (tr @ [GetHeaders (installation_id self), SessionDelete (issue_url self @ ''/labels/'' @ label)]) \<noteq> 204,
      tr @ [GetHeaders (installation_id self), SessionDelete (issue_url self @ ''/labels/'' @ label)])"
  by (simp add: delete_label_def call_client_def Let_def)

lemma create_comment_flag:
  "create_comment self b tr =
     (session_post (client self)
        (tr @ [GetHeaders (installation_id self), SessionPost (issue_url self @ ''/comments'') b]) \<noteq> 200,
      tr @ [GetHeaders (installation_id self), SessionPost (issue_url self @ ''/comments'') b])"
  by (simp add: create_comment_def call_client_def Let_def)

lemma notify_trace: "\<exists>cs. snd (notify_pr_creator x self tr) = tr @ cs \<and> Mergeable \<notin> set cs"
  by (auto simp add: notify_pr_creator_def delete_label_flag create_comment_flag Let_def
      split: option.splits config.splits)

lemma notify_not_required:
  "event self = Some ev \<Longrightarrow> config ev = IsV1 cfg \<Longrightarrow> \<not> require_automerge_label (merge cfg)
   \<Longrightarrow> notify_pr_creator x self tr = (False, tr)"
  by (simp add: notify_pr_creator_def)

lemma on_violation_trace:
  "event self = Some ev \<Longrightarrow> \<exists>cs. snd (snd (on_violation x self ev cfg merging e tr)) = tr @ cs"
proof (cases e)
  case MergeConflict
  assume "event self = Some ev"
  moreover obtain cs where "snd (notify_pr_creator x self tr) = tr @ cs"
    using notify_trace by blast
  ultimately show ?thesis using MergeConflict
    by (simp add: cannot_merge_def set_status_event Let_def)
qed (simp_all add: cannot_merge_def set_status_event Let_def)

section \<open>Status posts under the merging flag\<close>

text \<open>
  Claim C6. When the classifier raises \<open>WaitingForChecks\<close>, or raises
  \<open>NeedsBranchUpdate\<close> on a same-repository pull request, \<open>mergeability\<close> posts exactly
  one status notification with \<open>merging = True\<close> and none with \<open>merging = False\<close>, and
  the response code (\<open>WAIT\<close>, respectively \<open>NEEDS_UPDATE\<close>) is the same in both cases.
\<close>

theorem merging_gates_status:
  assumes "get_event self tr = (Some ev, tr1)"
    and "isCrossRepository (pull_request ev) \<or> head_exists ev"
    and "config ev = IsV1 cfg"
    and "(\<exists>checks. mergeable x ev = Some (WaitingForChecks checks))
         \<or> (mergeable x ev = Some NeedsBranchUpdate \<and> \<not> isCrossRepository (pull_request ev))"
  shows "status_posts (new_calls tr (snd (snd (mergeability x self True tr)))) = 1
       \<and> status_posts (new_calls tr (snd (snd (mergeability x self False tr)))) = 0
       \<and> fst (fst (mergeability x self True tr)) = fst (fst (mergeability x self False tr))
       \<and> fst (fst (mergeability x self False tr))
           = (if mergeable x ev = Some NeedsBranchUpdate then NEEDS_UPDATE else WAIT)"
proof -
  obtain cs where cs: "tr1 = tr @ cs" "status_posts cs = 0"
    using get_event_trace [of self tr] assms(1) by auto
  note u = mergeability_unfold [OF assms(1-3)]
  from assms(4) show ?thesis
  proof
    assume "\<exists>checks. mergeable x ev = Some (WaitingForChecks checks)"
    then obtain checks where "mergeable x ev = Some (WaitingForChecks checks)" by blast
    then show ?thesis using cs
      by (simp add: u set_status_event new_calls_def status_posts_def)
  next
    assume "mergeable x ev = Some NeedsBranchUpdate \<and> \<not> isCrossRepository (pull_request ev)"
    then show ?thesis using cs
      by (simp add: u set_status_event new_calls_def status_posts_def)
  qed
qed

theorem merging_gates_status_witness:
  "get_event (sample_PR (sample_client sample_event 204 200) None) [] = (Some sample_event, sample_fetch)
   \<and> (isCrossRepository (pull_request sample_event) \<or> head_exists sample_event)
   \<and> config sample_event = IsV1 sample_config
   \<and> ((\<exists>checks. mergeable (sample_ext\<lparr>mergeable := (\<lambda>ev. Some (WaitingForChecks [''ci/test'']))\<rparr>) sample_event
           = Some (WaitingForChecks checks))
        \<or> (mergeable (sample_ext\<lparr>mergeable := (\<lambda>ev. Some (WaitingForChecks [''ci/test'']))\<rparr>) sample_event
             = Some NeedsBranchUpdate \<and> \<not> isCrossRepository (pull_request sample_event)))
   \<and> status_posts (new_calls [] (snd (snd (mergeability
         (sample_ext\<lparr>mergeable := (\<lambda>ev. Some (WaitingForChecks [''ci/test'']))\<rparr>)
         (sample_PR (sample_client sample_event 204 200) None) True [])))) = 1
   \<and> status_posts (new_calls [] (snd (snd (mergeability
         (sample_ext\<lparr>mergeable := (\<lambda>ev. Some (WaitingForChecks [''ci/test'']))\<rparr>)
         (sample_PR (sample_client sample_event 204 200) None) False [])))) = 0
   \<and> fst (fst (mergeability
         (sample_ext\<lparr>mergeable := (\<lambda>ev. Some (WaitingForChecks [''ci/test'']))\<rparr>)
         (sample_PR (sample_client sample_event 204 200) None) False [])) = WAIT"
proof -
  let ?x = "sample_ext\<lparr>mergeable := (\<lambda>ev. Some (WaitingForChecks [''ci/test'']))\<rparr>"
  have h1: "get_event (sample_PR (sample_client sample_event 204 200) None) []
              = (Some sample_event, sample_fetch)"
    by (rule get_event_sample)
  have h2: "isCrossRepository (pull_request sample_event) \<or> head_exists sample_event"
    by (simp add: sample_event_def)
  have h3: "config sample_event = IsV1 sample_config"
    by (simp add: sample_event_def)
  have h4: "(\<exists>checks. mergeable ?x sample_event = Some (WaitingForChecks checks))
        \<or> (mergeable ?x sample_event = Some NeedsBranchUpdate
            \<and> \<not> isCrossRepository (pull_request sample_event))"
    by simp
  show ?thesis
    using h1 h2 h3 h4 merging_gates_status [OF h1 h2 h3 h4]
    by simp
qed

section \<open>A pull request whose head is missing\<close>

lemma mergeability_deleted_head:
  assumes "get_event self tr = (Some ev, tr1)"
    and "\<not> isCrossRepository (pull_request ev)" and "\<not> head_exists ev"
  shows "mergeability x self merging tr = ((NOT_MERGEABLE, None), self\<lparr>event := Some ev\<rparr>, tr1)"
  using assms by (simp add: mergeability_def)

lemma mergeability_invalid_config:
  assumes "get_event self tr = (Some ev, tr1)"
    and "isCrossRepository (pull_request ev) \<or> head_exists ev"
    and "config ev = NotV1 err"
  shows "mergeability x self merging tr =
           ((NOT_MERGEABLE, None), self\<lparr>event := Some ev\<rparr>,
            tr1 @ [CreateNotification (latest_sha (pull_request ev))
                     (police_light @ '' Invalid configuration'' @ '' ('' @ ''Click \"Details\" for more info.'' @ '')'')
                     (Some (get_markdown_for_config x err (config_str ev) (config_file_expression ev)))])"
  using assms by (auto simp add: mergeability_def set_status_event)

lemma mergeability_classifier_called:
  assumes "get_event self tr = (Some ev, tr1)"
    and "isCrossRepository (pull_request ev) \<or> head_exists ev"
    and "config ev = IsV1 cfg"
  shows "Mergeable \<in> set (new_calls tr (snd (snd (mergeability x self merging tr))))"
proof -
  obtain cs where cs: "tr1 = tr @ cs"
    using get_event_trace [of self tr] assms(1) by auto
  show ?thesis
  proof (cases "mergeable x ev")
    case None
    then show ?thesis using cs
      by (simp add: mergeability_unfold [OF assms] new_calls_def)
  next
    case (Some e)
    obtain ds where "snd (snd (on_violation x (self\<lparr>event := Some ev\<rparr>) ev cfg merging e (tr1 @ [Mergeable])))
                       = (tr1 @ [Mergeable]) @ ds"
      using on_violation_trace [of "self\<lparr>event := Some ev\<rparr>" ev x cfg merging e "tr1 @ [Mergeable]"]
      by auto
    then show ?thesis using cs Some
      by (simp add: mergeability_unfold [OF assms] new_calls_def)
  qed
qed

text \<open>
  Claim C5 says that a cross-repository pull request whose head ref does not exist always
  gives \<open>(NOT_MERGEABLE, None)\<close>. The head test of the evaluator only applies to
  same-repository pull requests (a fork always appears without a head), so a fork goes on to
  the configuration test and to the classifier: with a valid configuration and a satisfied
  policy the result is \<open>(OK, snapshot)\<close>.
\<close>

theorem fork_missing_head_counterexample:
  "isCrossRepository (pull_request fork_event) \<and> \<not> head_exists fork_event
   \<and> fst (mergeability sample_ext (sample_PR (sample_client fork_event 204 200) None) False [])
       = (OK, Some fork_event)
   \<and> fst (mergeability sample_ext (sample_PR (sample_client fork_event 204 200) None) False [])
       \<noteq> (NOT_MERGEABLE, None)"
proof -
  have h1: "get_event (sample_PR (sample_client fork_event 204 200) None) []
              = (Some fork_event, sample_fetch)"
    by (rule get_event_sample)
  have h2: "isCrossRepository (pull_request fork_event) \<or> head_exists fork_event"
    by (simp add: fork_event_def sample_event_def)
  have h3: "config fork_event = IsV1 sample_config"
    by (simp add: fork_event_def sample_event_def)
  have "fst (mergeability sample_ext (sample_PR (sample_client fork_event 204 200) None) False [])
          = (OK, Some fork_event)"
    using mergeability_response [OF h1 h2 h3, of sample_ext False]
    by (simp add: sample_ext_def fork_event_def sample_event_def)
  then show ?thesis
    by (simp add: fork_event_def sample_event_def)
qed

text \<open>
  Claim C5 as amended. With a snapshot whose head is missing: a same-repository pull request
  gives \<open>(NOT_MERGEABLE, None)\<close> at once, with no call of the classifier and no status
  posted; a cross-repository pull request is not stopped there: with a valid configuration the
  classifier is called and the result is the table's response for its outcome together with
  the snapshot, and with an invalid configuration the invalid-configuration status is posted,
  and nothing else, the classifier is not called and the result is
  \<open>(NOT_MERGEABLE, None)\<close>.
\<close>

theorem missing_head_paths:
  assumes "get_event self tr = (Some ev, tr1)" and "\<not> head_exists ev"
  shows "(\<not> isCrossRepository (pull_request ev) \<longrightarrow>
            fst (mergeability x self merging tr) = (NOT_MERGEABLE, None)
            \<and> snd (snd (mergeability x self merging tr)) = tr1
            \<and> Mergeable \<notin> set (new_calls tr (snd (snd (mergeability x self merging tr))))
            \<and> status_posts (new_calls tr (snd (snd (mergeability x self merging tr)))) = 0)
       \<and> (isCrossRepository (pull_request ev) \<longrightarrow>
            (\<forall>cfg. config ev = IsV1 cfg \<longrightarrow>
               fst (mergeability x self merging tr) = (table_response (mergeable x ev) True, Some ev)
               \<and> Mergeable \<in> set (new_calls tr (snd (snd (mergeability x self merging tr)))))
          \<and> (\<forall>err. config ev = NotV1 err \<longrightarrow>
               fst (mergeability x self merging tr) = (NOT_MERGEABLE, None)
               \<and> snd (snd (mergeability x self merging tr))
                   = tr1 @ [CreateNotification (latest_sha (pull_request ev))
                              (police_light @ '' Invalid configuration'' @ '' (''
                                 @ ''Click \"Details\" for more info.'' @ '')'')
                              (Some (get_markdown_for_config x err (config_str ev)
                                       (config_file_expression ev)))]
               \<and> Mergeable \<notin> set (new_calls tr (snd (snd (mergeability x self merging tr))))
               \<and> status_posts (new_calls tr (snd (snd (mergeability x self merging tr)))) = 1))"
proof -
  obtain cs where cs: "tr1 = tr @ cs" "Mergeable \<notin> set cs" "status_posts cs = 0"
    using get_event_trace [of self tr] assms(1) by auto
  have a: "\<not> isCrossRepository (pull_request ev) \<Longrightarrow>
            fst (mergeability x self merging tr) = (NOT_MERGEABLE, None)
            \<and> snd (snd (mergeability x self merging tr)) = tr1
            \<and> Mergeable \<notin> set (new_calls tr (snd (snd (mergeability x self merging tr))))
            \<and> status_posts (new_calls tr (snd (snd (mergeability x self merging tr)))) = 0"
    using cs by (simp add: mergeability_deleted_head [OF assms(1) _ assms(2)] new_calls_def)
  have b: "isCrossRepository (pull_request ev) \<Longrightarrow> config ev = IsV1 cfg \<Longrightarrow>
            fst (mergeability x self merging tr) = (table_response (mergeable x ev) True, Some ev)
            \<and> Mergeable \<in> set (new_calls tr (snd (snd (mergeability x self merging tr))))" for cfg
    using mergeability_response [OF assms(1), of cfg x merging]
      mergeability_classifier_called [OF assms(1), of cfg x merging]
    by simp
  have c: "isCrossRepository (pull_request ev) \<Longrightarrow> config ev = NotV1 err \<Longrightarrow>
            fst (mergeability x self merging tr) = (NOT_MERGEABLE, None)
            \<and> snd (snd (mergeability x self merging tr))
                = tr1 @ [CreateNotification (latest_sha (pull_request ev))
                           (police_light @ '' Invalid configuration'' @ '' (''
                              @ ''Click \"Details\" for more info.'' @ '')'')
                           (Some (get_markdown_for_config x err (config_str ev)
                                    (config_file_expression ev)))]
            \<and> Mergeable \<notin> set (new_calls tr (snd (snd (mergeability x self merging tr))))
            \<and> status_posts (new_calls tr (snd (snd (mergeability x self merging tr)))) = 1" for err
    using cs mergeability_invalid_config [OF assms(1), of err x merging]
    by (simp add: new_calls_def status_posts_def)
  from a b c show ?thesis by blast
qed

theorem missing_head_paths_witness:
  "get_event (sample_PR (sample_client fork_event 204 200) None) [] = (Some fork_event, sample_fetch)
   \<and> \<not> head_exists fork_event
   \<and> isCrossRepository (pull_request fork_event)
   \<and> config fork_event = IsV1 sample_config
   \<and> fst (mergeability sample_ext (sample_PR (sample_client fork_event 204 200) None) False [])
       = (OK, Some fork_event)
   \<and> Mergeable \<in> set (new_calls [] (snd (snd (mergeability sample_ext
         (sample_PR (sample_client fork_event 204 200) None) False []))))
   \<and> get_event (sample_PR (sample_client deleted_event 204 200) None) [] = (Some deleted_event, sample_fetch)
   \<and> \<not> head_exists deleted_event
   \<and> \<not> isCrossRepository (pull_request deleted_event)
   \<and> fst (mergeability sample_ext (sample_PR (sample_client deleted_event 204 200) None) False [])
       = (NOT_MERGEABLE, None)
   \<and> snd (snd (mergeability sample_ext (sample_PR (sample_client deleted_event 204 200) None) False []))
       = sample_fetch
   \<and> get_event (sample_PR (sample_client broken_fork_event 204 200) None) []
       = (Some broken_fork_event, sample_fetch)
   \<and> \<not> head_exists broken_fork_event
   \<and> isCrossRepository (pull_request broken_fork_event)
   \<and> config broken_fork_event = NotV1 ''bad''
   \<and> fst (mergeability sample_ext (sample_PR (sample_client broken_fork_event 204 200) None) False [])
       = (NOT_MERGEABLE, None)
   \<and> snd (snd (mergeability sample_ext (sample_PR (sample_client broken_fork_event 204 200) None) False []))
       = sample_fetch @ [CreateNotification ''abc123''
                           (police_light @ '' Invalid configuration (Click \"Details\" for more info.)'')
                           (Some ''[merge'')]"
proof -
  have f1: "get_event (sample_PR (sample_client fork_event 204 200) None) []
              = (Some fork_event, sample_fetch)"
    by (rule get_event_sample)
  have f2: "\<not> head_exists fork_event"
    by (simp add: fork_event_def)
  have f3: "isCrossRepository (pull_request fork_event)"
    by (simp add: fork_event_def)
  have f4: "config fork_event = IsV1 sample_config"
    by (simp add: fork_event_def sample_event_def)
  have f5: "mergeable sample_ext fork_event = None"
    by (simp add: sample_ext_def)
  have d1: "get_event (sample_PR (sample_client deleted_event 204 200) None) []
              = (Some deleted_event, sample_fetch)"
    by (rule get_event_sample)
  have d2: "\<not> head_exists deleted_event"
    by (simp add: deleted_event_def)
  have d3: "\<not> isCrossRepository (pull_request deleted_event)"
    by (simp add: deleted_event_def sample_event_def sample_pull_request_def)
  have b1: "get_event (sample_PR (sample_client broken_fork_event 204 200) None) []
              = (Some broken_fork_event, sample_fetch)"
    by (rule get_event_sample)
  have b2: "\<not> head_exists broken_fork_event"
    by (simp add: broken_fork_event_def fork_event_def)
  have b3: "isCrossRepository (pull_request broken_fork_event)"
    by (simp add: broken_fork_event_def fork_event_def)
  have b4: "config broken_fork_event = NotV1 ''bad''"
    by (simp add: broken_fork_event_def)
  have b5: "latest_sha (pull_request broken_fork_event) = ''abc123''"
      "config_str broken_fork_event = ''[merge''"
      "get_markdown_for_config sample_ext = (\<lambda>c s e. s)"
    by (simp_all add: broken_fork_event_def fork_event_def sample_pull_request_def sample_ext_def)
  show ?thesis
    using f1 f2 f3 f4 f5 d1 d2 d3 b1 b2 b3 b4
      missing_head_paths [OF f1 f2, of sample_ext False]
      missing_head_paths [OF d1 d2, of sample_ext False]
      missing_head_paths [OF b1 b2, of sample_ext False]
    by (simp add: b5)
qed

section \<open>The commit title\<close>

text \<open>
  A payload is returned whenever the body of the pull request is not run through the comment
  stripper and the body type is known.
\<close>

lemma get_merge_body_returns:
  assumes "message_body (message (merge cfg)) \<noteq> pull_request_body
           \<or> body_type (message (merge cfg)) = plain_text
           \<or> body_type (message (merge cfg)) = html
           \<or> (body_type (message (merge cfg)) = markdown \<and> \<not> strip_html_comments (message (merge cfg)))"
  shows "\<exists>mb. get_merge_body x p cfg pr = (Inr mb, p)"
  using assms by (auto simp add: get_merge_body_def get_body_content_def Let_def)

lemma get_merge_body_title:
  "fst (get_merge_body x p cfg pr) = Inr mb \<Longrightarrow>
   commit_title mb =
     (if message_title (message (merge cfg)) = pull_request_title
      then (if include_pr_number (message (merge cfg)) \<and> title pr \<noteq> []
            then Some (title pr @ pr_number_suffix (number pr)) else Some (title pr))
      else None)"
  by (auto simp add: get_merge_body_def Let_def truthy_title_def
      split: sum.splits if_splits prod.splits)

lemma endswith_append: "endswith (s @ t) t"
  by (simp add: endswith_def)

lemma get_merge_body_sample:
  "get_merge_body sample_ext p sample_config (sample_pull_request\<lparr>title := t\<rparr>)
     = (Inr \<lparr>merge_method = ''squash'', commit_message = Some [],
             commit_title = Some (if t = [] then [] else t @ '' (#7)'')\<rparr>, p)"
  by (simp add: get_merge_body_def Let_def truthy_title_def sample_config_def sample_message_def
      sample_pull_request_def pr_number_suffix_7)

text \<open>
  Claim C7 says that with \<open>include_pr_number\<close> enabled and the title style "use the title of
  the pull request", the built title ends with the number suffix for every title. The test that
  guards the append is the truth value of \<open>merge_body.get("commit_title")\<close>: for a pull
  request whose title is the empty string the key is set, the test fails and nothing is
  appended.
\<close>

theorem empty_title_counterexample:
  "include_pr_number (message (merge sample_config))
   \<and> message_title (message (merge sample_config)) = pull_request_title
   \<and> get_merge_body sample_ext html_parser_init sample_config untitled_pull_request
       = (Inr \<lparr>merge_method = ''squash'', commit_message = Some [], commit_title = Some []\<rparr>,
          html_parser_init)
   \<and> \<not> endswith [] (pr_number_suffix (number untitled_pull_request))"
  using get_merge_body_sample [of html_parser_init "[]"]
  by (simp add: sample_config_def sample_message_def untitled_pull_request_def
      sample_pull_request_def endswith_def pr_number_suffix_def)

text \<open>
  Claim C7 as amended. Whenever \<open>get_merge_body\<close> returns a payload: with
  \<open>include_pr_number\<close> enabled, the title style "use the title of the pull request" and a
  title that is not empty, \<open>commit_title\<close> is the title followed by the suffix
  \<open>" (#number)"\<close>, appended once; when the title style sets no title, \<open>commit_title\<close>
  is absent and nothing is appended.
\<close>

theorem pr_number_appended:
  assumes "fst (get_merge_body x p cfg pr) = Inr mb"
  shows "(include_pr_number (message (merge cfg))
            \<and> message_title (message (merge cfg)) = pull_request_title \<and> title pr \<noteq> []
          \<longrightarrow> commit_title mb = Some (title pr @ pr_number_suffix (number pr))
              \<and> endswith (title pr @ pr_number_suffix (number pr)) (pr_number_suffix (number pr)))
       \<and> (message_title (message (merge cfg)) \<noteq> pull_request_title \<longrightarrow> commit_title mb = None)"
  using get_merge_body_title [OF assms] by (simp add: endswith_append)

theorem pr_number_appended_witness:
  "fst (get_merge_body sample_ext html_parser_init sample_config sample_pull_request)
     = Inr \<lparr>merge_method = ''squash'', commit_message = Some [],
            commit_title = Some ''Fix the parser (#7)''\<rparr>
   \<and> include_pr_number (message (merge sample_config))
   \<and> message_title (message (merge sample_config)) = pull_request_title
   \<and> title sample_pull_request \<noteq> []
   \<and> commit_title \<lparr>merge_method = ''squash'', commit_message = Some [],
                    commit_title = Some ''Fix the parser (#7)''\<rparr>
       = Some (title sample_pull_request @ pr_number_suffix (number sample_pull_request))"
proof -
  have h: "fst (get_merge_body sample_ext html_parser_init sample_config sample_pull_request)
     = Inr \<lparr>merge_method = ''squash'', commit_message = Some [],
            commit_title = Some ''Fix the parser (#7)''\<rparr>"
    using get_merge_body_sample [of html_parser_init "''Fix the parser''"]
    by (simp add: sample_pull_request_def)
  have c: "include_pr_number (message (merge sample_config))"
      "message_title (message (merge sample_config)) = pull_request_title"
      "title sample_pull_request \<noteq> []"
    by (simp_all add: sample_config_def sample_message_def sample_pull_request_def)
  show ?thesis
    using h c pr_number_appended [OF h] by simp
qed

section \<open>Stripping a text without comments\<close>

lemma feed_silent:
  "html_feed x [] data = ([], False) \<Longrightarrow> feed x html_parser_init data = (False, \<lparr>comments = [], fed = [data]\<rparr>)"
  by (simp add: feed_def html_parser_init_def)

lemma reset_init: "reset p = html_parser_init"
  by (simp add: reset_def html_parser_init_def)

lemma collect_comments_silent:
  assumes "list_all (\<lambda>(html_start, html_end). fst (html_feed x [] (slice msg html_start html_end)) = []) positions"
    and "list_all (\<lambda>(html_start, html_end). \<not> snd (html_feed x [] (slice msg html_start html_end))) positions"
  shows "collect_comments x msg positions comment_locations html_parser_init
           = (Inr comment_locations, html_parser_init)"
  using assms
proof (induction positions arbitrary: comment_locations)
  case Nil
  then show ?case by simp
next
  case (Cons a positions)
  obtain html_start html_end where a: "a = (html_start, html_end)" by (cases a)
  from Cons.prems a have "html_feed x [] (slice msg html_start html_end) = ([], False)"
    by (simp add: prod_eq_iff)
  then have "feed x html_parser_init (slice msg html_start html_end)
               = (False, \<lparr>comments = [], fed = [slice msg html_start html_end]\<rparr>)"
    by (rule feed_silent)
  moreover have "collect_comments x msg positions comment_locations html_parser_init
                   = (Inr comment_locations, html_parser_init)"
    using Cons.IH Cons.prems by simp
  ultimately show ?case
    using a by (simp add: reset_init)
qed

text \<open>
  The stripper at work: an inline comment is cut out; a comment on the second line of an HTML
  node is cut out at its column, not at its position; a marked section makes the parser
  raise, the parser is left unreset, and the next call, on a harmless text, raises too.
\<close>

lemma strip_inline_comment:
  "strip_html_comments_from_markdown sample_ext html_parser_init inline_comment_body
     = (Inr ''Hello  world'', html_parser_init)"
  by (simp add: strip_html_comments_from_markdown_def normalize_def sample_ext_def
      sample_positions_def sample_feed_def feed_def reset_def handle_comment_def slice_def
      html_parser_init_def inline_comment_body_def multiline_block_def marked_block_def
      plain_block_def CR_def LF_def Let_def)

lemma strip_multiline_block:
  "strip_html_comments_from_markdown sample_ext html_parser_init multiline_block
     = (Inr ('' c -->'' @ [LF] @ ''</div>''), html_parser_init)"
  by (simp add: strip_html_comments_from_markdown_def normalize_def sample_ext_def
      sample_positions_def sample_feed_def feed_def reset_def handle_comment_def slice_def
      html_parser_init_def multiline_block_def marked_block_def
      plain_block_def CR_def LF_def Let_def)

lemma strip_marked_block:
  "strip_html_comments_from_markdown sample_ext html_parser_init marked_block
     = (Inl ParserError, \<lparr>comments = [], fed = [marked_block]\<rparr>)"
  by (simp add: strip_html_comments_from_markdown_def normalize_def sample_ext_def
      sample_positions_def sample_feed_def feed_def slice_def
      html_parser_init_def marked_block_def CR_def Let_def)

lemma strip_after_raise:
  "strip_html_comments_from_markdown sample_ext \<lparr>comments = [], fed = [marked_block]\<rparr> plain_block
     = (Inl ParserError, \<lparr>comments = [], fed = [marked_block, plain_block]\<rparr>)"
  by (simp add: strip_html_comments_from_markdown_def normalize_def sample_ext_def
      sample_positions_def sample_feed_def feed_def slice_def
      plain_block_def CR_def Let_def)

text \<open>
  Claim C8 says that an input without HTML comments comes back unchanged. The stripper first
  removes every carriage return and never puts one back, so an input with a carriage return and
  no markup at all comes back shorter.
\<close>

theorem carriage_return_counterexample:
  "CHR ''<'' \<notin> set crlf_body
   \<and> no_html_comments sample_ext crlf_body
   \<and> strip_html_comments_from_markdown sample_ext html_parser_init crlf_body
       = (Inr (''a'' @ [LF] @ ''b''), html_parser_init)
   \<and> ''a'' @ [LF] @ ''b'' \<noteq> crlf_body"
  by (simp add: no_html_comments_def strip_html_comments_from_markdown_def normalize_def
      sample_ext_def sample_positions_def crlf_body_def CR_def LF_def
      multiline_block_def marked_block_def plain_block_def inline_comment_body_def)

text \<open>
  Claim C8 as amended. For every input that contains no HTML comments (the parser reports a
  comment in none of the HTML nodes of the text) and on whose HTML nodes the parser does not
  raise, \<open>strip_html_comments_from_markdown\<close>, called with the shared parser in its reset
  state, returns the input with its carriage returns removed and leaves the parser reset; the
  result is identical to the input exactly when the input holds no carriage return.
\<close>

theorem strip_without_comments:
  assumes "no_html_comments x raw_message" and "parser_completes x raw_message"
  shows "strip_html_comments_from_markdown x html_parser_init raw_message
           = (Inr (normalize raw_message), html_parser_init)
       \<and> (normalize raw_message = raw_message \<longleftrightarrow> CR \<notin> set raw_message)"
proof -
  have "collect_comments x (normalize raw_message) (find_html_positions x (normalize raw_message)) []
          html_parser_init = (Inr [], html_parser_init)"
    using assms by (intro collect_comments_silent) (simp_all add: no_html_comments_def parser_completes_def Let_def)
  then have s: "strip_html_comments_from_markdown x html_parser_init raw_message
                  = (Inr (normalize raw_message), html_parser_init)"
    by (simp add: strip_html_comments_from_markdown_def Let_def)
  have "normalize raw_message = raw_message \<longleftrightarrow> CR \<notin> set raw_message"
    by (auto simp add: normalize_def filter_id_conv)
  with s show ?thesis by simp
qed

theorem strip_without_comments_witness:
  "no_html_comments sample_ext plain_block
   \<and> parser_completes sample_ext plain_block
   \<and> find_html_positions sample_ext plain_block = [(0, 9)]
   \<and> strip_html_comments_from_markdown sample_ext html_parser_init plain_block
       = (Inr plain_block, html_parser_init)"
proof -
  have n: "normalize plain_block = plain_block"
    by (simp add: normalize_def plain_block_def CR_def)
  have p: "find_html_positions sample_ext plain_block = [(0, 9)]"
    by (simp add: sample_ext_def sample_positions_def plain_block_def)
  have f: "html_feed sample_ext [] (slice plain_block 0 9) = ([], False)"
    by (simp add: sample_ext_def sample_feed_def slice_def plain_block_def marked_block_def
        multiline_block_def)
  have h1: "no_html_comments sample_ext plain_block"
    by (simp add: no_html_comments_def n p f)
  have h2: "parser_completes sample_ext plain_block"
    by (simp add: parser_completes_def n p f)
  show ?thesis
    using h1 h2 p strip_without_comments [OF h1 h2] by (simp add: n)
qed

section \<open>The body formats\<close>

lemma get_body_content_formats:
  "get_body_content x p markdown True pr = strip_html_comments_from_markdown x p (body pr)
   \<and> get_body_content x p markdown False pr = (Inr (body pr), p)
   \<and> get_body_content x p plain_text strip pr = (Inr (bodyText pr), p)
   \<and> get_body_content x p html strip pr = (Inr (bodyHTML pr), p)
   \<and> get_body_content x p (other_body_type v) strip pr = (Inl (UnknownBodyType (other_body_type v)), p)"
  by (simp add: get_body_content_def)

text \<open>
  Claim C9 says that for the format \<open>markdown\<close> with the flag set the body comes back
  stripped of its comments. \<open>get_body_content\<close> hands the body to the stripper
  (\<open>get_body_content_formats\<close>, which also shows the other formats and the error for an
  unknown format to be as claimed), and the stripper takes the parser's \<open>offset\<close>, a column
  in the current line, for a position in the text: of a block with a comment on its second
  line it removes the first ten characters and leaves the end of the comment; and where the
  parser raises, the exception escapes and no text is returned.
\<close>

theorem strip_flag_miscuts:
  "get_body_content sample_ext html_parser_init markdown True (sample_pull_request\<lparr>body := multiline_block\<rparr>)
     = (Inr ('' c -->'' @ [LF] @ ''</div>''), html_parser_init)
   \<and> '' c -->'' @ [LF] @ ''</div>'' \<noteq> ''<div>'' @ [LF] @ [LF] @ ''</div>''
   \<and> get_body_content sample_ext html_parser_init markdown True (sample_pull_request\<lparr>body := marked_block\<rparr>)
       = (Inl ParserError, \<lparr>comments = [], fed = [marked_block]\<rparr>)"
  by (simp add: get_body_content_def strip_multiline_block strip_marked_block)

section \<open>Equality of PR objects\<close>

text \<open>
  Claim C10. Two \<open>PR\<close> objects are equal exactly when their number, owner, repository and
  installation identifier are equal; the cached snapshot and the client do not enter the
  comparison; comparing with a value of another type raises \<open>NotImplementedError\<close>.
\<close>

theorem PR_eq_identity:
  "PR_eq self (PRObject b)
     = Inr (PR_number self = PR_number b \<and> owner self = owner b \<and> repo self = repo b
            \<and> installation_id self = installation_id b)
   \<and> PR_eq (self\<lparr>event := e, client := c\<rparr>) (PRObject (b\<lparr>event := e', client := c'\<rparr>))
       = PR_eq self (PRObject b)
   \<and> PR_eq self (OtherObject v) = Inl NotImplementedError"
  by (simp add: PR_eq_def)

section \<open>Status codes\<close>

text \<open>
  Claim C3 says that \<open>delete_label\<close> returns true exactly on status 204 and
  \<open>create_comment\<close> exactly on status 200. Both functions return the result of the
  comparison \<open>status_code != code\<close> (see \<open>delete_label_flag\<close> and
  \<open>create_comment_flag\<close>): on the expected code they return false, on every other code
  true.
\<close>

theorem status_flags_inverted:
  "fst (delete_label (sample_PR (sample_client sample_event 204 200) None) ''automerge'' []) = False
   \<and> fst (create_comment (sample_PR (sample_client sample_event 204 200) None) ''conflict'' []) = False
   \<and> fst (delete_label (sample_PR (sample_client sample_event 404 500) None) ''automerge'' []) = True
   \<and> fst (create_comment (sample_PR (sample_client sample_event 404 500) None) ''conflict'' []) = True"
  by (simp add: delete_label_flag create_comment_flag sample_PR_def sample_client_def)

lemma update_flag:
  "get_event self tr = (Some ev, tr1) \<Longrightarrow>
   fst (update self tr)
     = (\<not> merge_branch (client self)
            (tr1 @ [MergeBranch (baseRefName (pull_request ev)) (headRefName (pull_request ev))]) > 300)"
  by (simp add: update_def call_client_def Let_def)

lemma PR_merge_flag:
  "config ev = IsV1 cfg \<Longrightarrow> get_merge_body x p cfg (pull_request ev) = (Inr mb, p1) \<Longrightarrow>
   PR_merge x self ev p tr
     = (Inr (\<not> merge_pull_request (client self) (tr @ [MergePullRequest (PR_number self) mb]) > 300),
        p1, tr @ [MergePullRequest (PR_number self) mb])"
  by (simp add: PR_merge_def call_client_def Let_def)

text \<open>
  Claim C4 says that \<open>update\<close> and \<open>merge\<close> fail exactly on a status code of 300 or
  more. Both test \<open>status_code > 300\<close> (see \<open>update_flag\<close> and \<open>PR_merge_flag\<close>):
  a response with status 300 is reported as a success.
\<close>

theorem status_300_accepted:
  "fst (update (sample_PR (sample_client sample_event 204 300) None) []) = True
   \<and> PR_merge sample_ext (sample_PR (sample_client sample_event 204 300) None) sample_event p []
       = (Inr True, p, [MergePullRequest 7
                \<lparr>merge_method = ''squash'', commit_message = Some [],
                 commit_title = Some ''Fix the parser (#7)''\<rparr>])"
proof -
  have u: "fst (update (sample_PR (sample_client sample_event 204 300) None) []) = True"
    using update_flag [OF get_event_sample [of sample_event 204 300 None]]
    by (simp add: sample_PR_def sample_client_def)
  have b: "get_merge_body sample_ext p sample_config (pull_request sample_event)
        = (Inr \<lparr>merge_method = ''squash'', commit_message = Some [],
                commit_title = Some ''Fix the parser (#7)''\<rparr>, p)"
    using get_merge_body_sample [of p "''Fix the parser''"]
    by (simp add: sample_event_def sample_pull_request_def)
  have c: "config sample_event = IsV1 sample_config"
    by (simp add: sample_event_def)
  show ?thesis
    using u PR_merge_flag [OF c b, of "sample_PR (sample_client sample_event 204 300) None" "[]"]
    by (simp add: sample_PR_def sample_client_def)
qed

text \<open>
  With a cached snapshot, a valid configuration and the label required,
  \<open>notify_pr_creator\<close> deletes the label first and comments only when \<open>delete_label\<close>
  returned true.
\<close>

lemma notify_follows_flag:
  assumes "event self = Some ev" and "config ev = IsV1 cfg"
    and "require_automerge_label (merge cfg)"
  shows "notify_pr_creator x self tr =
           (if fst (delete_label self (automerge_label (merge cfg)) tr)
            then create_comment self (conflict_comment x (automerge_label (merge cfg)))
                   (snd (delete_label self (automerge_label (merge cfg)) tr))
            else (False, snd (delete_label self (automerge_label (merge cfg)) tr)))"
  using assms by (simp add: notify_pr_creator_def Let_def split: prod.splits)

lemma issue_url_sample: "issue_url (sample_PR c e) = ''https://api.github.com/repos/octo/demo/issues/7''"
  by (simp add: issue_url_def sample_PR_def str_int_7)

text \<open>
  Claim C2 says that the conflict comment is created exactly when the policy requires the
  label and the label removal succeeds. \<open>notify_pr_creator\<close> does delete the label before it
  comments, and does nothing when the label is not required (\<open>notify_not_required\<close>), but
  it goes on to the comment when \<open>delete_label\<close> returns true, which is when the status is
  not 204: after a confirmed removal (204) no comment is posted, and after a failed one (404)
  the comment is posted.
\<close>

theorem notify_follows_inverted_flag:
  "require_automerge_label (merge sample_config)
   \<and> notify_pr_creator sample_ext (sample_PR (sample_client sample_event 204 201) (Some sample_event)) []
       = (False, [GetHeaders ''99'',
                  SessionDelete ''https://api.github.com/repos/octo/demo/issues/7/labels/automerge''])
   \<and> notify_pr_creator sample_ext (sample_PR (sample_client sample_event 404 201) (Some sample_event)) []
       = (True, [GetHeaders ''99'',
                 SessionDelete ''https://api.github.com/repos/octo/demo/issues/7/labels/automerge'',
                 GetHeaders ''99'',
                 SessionPost ''https://api.github.com/repos/octo/demo/issues/7/comments''
                   (conflict_comment sample_ext ''automerge'')])"
proof -
  have e: "event (sample_PR c (Some sample_event)) = Some sample_event" for c
    by (simp add: sample_PR_def)
  have c: "config sample_event = IsV1 sample_config"
    by (simp add: sample_event_def)
  have r: "require_automerge_label (merge sample_config)"
      "automerge_label (merge sample_config) = ''automerge''"
    by (simp_all add: sample_config_def)
  have i: "installation_id (sample_PR cl ev) = ''99''" "client (sample_PR cl ev) = cl" for cl ev
    by (simp_all add: sample_PR_def)
  have s: "session_delete (sample_client ev d st) = (\<lambda>tr. d)"
      "session_post (sample_client ev d st) = (\<lambda>tr. st)" for ev d st
    by (simp_all add: sample_client_def)
  show ?thesis
    by (simp add: notify_pr_creator_def e c r i s delete_label_flag create_comment_flag
        issue_url_sample Let_def)
qed

end
